theory Spec2Isabelle
  imports Main "HOL-Library.Word"
begin

section \<open>JavaScript values\<close>

text \<open>
  The part of the JavaScript value space that \<^verbatim>\<open>modules/ringo/httpserver.js\<close> inspects:
  \<^verbatim>\<open>undefined\<close>, \<^verbatim>\<open>null\<close>, booleans, numbers, strings and arrays. A number
  \<open>JNum n\<close> stands for the integral Number \<open>n\<close>; strings are lists of 8-bit characters.
\<close>

datatype jsval =
    Undefined
  | Null
  | JBool bool
  | JNum int
  | JStr string
  | JArr "jsval list"

text \<open>ToBoolean: what \<^verbatim>\<open>if (v)\<close>, \<^verbatim>\<open>v ? a : b\<close>, \<^verbatim>\<open>v || d\<close> and \<^verbatim>\<open>v && w\<close> test.\<close>

fun truthy :: "jsval \<Rightarrow> bool" where
  "truthy Undefined = False"
| "truthy Null = False"
| "truthy (JBool b) = b"
| "truthy (JNum n) = (n \<noteq> 0)"
| "truthy (JStr s) = (s \<noteq> [])"
| "truthy (JArr vs) = True"

definition isDecimalDigit :: "char \<Rightarrow> bool" where
  "isDecimalDigit c = (48 \<le> (of_char c :: nat) \<and> (of_char c :: nat) \<le> 57)"

definition digitValue :: "char \<Rightarrow> int" where
  "digitValue c = of_char c - 48"

definition decimalValue :: "string \<Rightarrow> int" where
  "decimalValue ds = foldl (\<lambda>a c. 10 * a + digitValue c) 0 ds"

definition digitChar :: "nat \<Rightarrow> char" where
  "digitChar d = ''0123456789'' ! d"

fun showNat :: "nat \<Rightarrow> string" where
  "showNat n = (if n < 10 then [digitChar n] else showNat (n div 10) @ [digitChar (n mod 10)])"

declare showNat.simps [simp del]

text \<open>
  Number-to-string conversion of an integral Number. JavaScript prints magnitudes below
  \<open>10^21\<close> in this plain decimal form; larger ones are outside the model.
\<close>

definition showInt :: "int \<Rightarrow> string" where
  "showInt n = (if n < 0 then CHR ''-'' # showNat (nat (- n)) else showNat (nat n))"

fun join :: "string list \<Rightarrow> string" where
  "join [] = []"
| "join [x] = x"
| "join (x # y # ys) = x @ CHR '','' # join (y # ys)"

text \<open>
  ToString, as applied by \<^verbatim>\<open>String(v)\<close>, by \<^verbatim>\<open>+\<close> on a string and by the first
  step of \<^verbatim>\<open>parseInt\<close>. An array prints its elements separated by commas, with
  \<^verbatim>\<open>undefined\<close> and \<^verbatim>\<open>null\<close> elements printed as the empty string.
\<close>

fun ToString :: "jsval \<Rightarrow> string" and elems :: "jsval list \<Rightarrow> string list" where
  "ToString Undefined = ''undefined''"
| "ToString Null = ''null''"
| "ToString (JBool b) = (if b then ''true'' else ''false'')"
| "ToString (JNum n) = showInt n"
| "ToString (JStr s) = s"
| "ToString (JArr vs) = join (elems vs)"
| "elems [] = []"
| "elems (v # vs) = (if v = Undefined \<or> v = Null then [] else ToString v) # elems vs"

definition isStrWhiteSpaceChar :: "char \<Rightarrow> bool" where
  "isStrWhiteSpaceChar c = ((of_char c :: nat) \<in> {9, 10, 11, 12, 13, 32})"

fun stripSign :: "string \<Rightarrow> string" where
  "stripSign [] = []"
| "stripSign (c # cs) = (if c = CHR ''+'' \<or> c = CHR ''-'' then cs else c # cs)"

fun isNegative :: "string \<Rightarrow> bool" where
  "isNegative [] = False"
| "isNegative (c # cs) = (c = CHR ''-'')"

text \<open>
  \<^verbatim>\<open>parseInt(v, 10)\<close>: convert to a string, skip leading white space, read an optional
  sign and the longest prefix of decimal digits. \<open>None\<close> is NaN (no digit was found).
\<close>

definition parseInt10 :: "jsval \<Rightarrow> int option" where
  "parseInt10 v =
     (let S = dropWhile isStrWhiteSpaceChar (ToString v);
          Z = takeWhile isDecimalDigit (stripSign S)
      in if Z = [] then None
         else Some ((if isNegative S then - 1 else 1) * decimalValue Z))"

text \<open>\<^verbatim>\<open>p || d\<close> for a parsed number \<open>p\<close>: NaN and 0 are falsy and give \<open>d\<close>.\<close>

definition numberOr :: "int option \<Rightarrow> int \<Rightarrow> int" where
  "numberOr p d = (case p of None \<Rightarrow> d | Some n \<Rightarrow> if n \<noteq> 0 then n else d)"

section \<open>Errors\<close>

datatype error =
    Error string
  | Thrown string
  | TypeError
  | IOException
  | Exit int

section \<open>The WebSocket channel\<close>

text \<open>
  The transport connection is Jetty's \<^verbatim>\<open>WebSocket.Connection\<close>, an external
  collaborator. It is modelled by what the channel calls on it: \<^verbatim>\<open>sendMessage\<close>
  (text, or bytes with offset and length), \<^verbatim>\<open>disconnect\<close> and \<^verbatim>\<open>isOpen\<close>.
  Connections live in a store and are referred to by their index; a connection that is no
  longer open rejects a send with an \<^verbatim>\<open>IOException\<close>.
\<close>

type_synonym bytes = "8 word list"

datatype frame =
    TextFrame string
  | BinaryFrame bytes int int

record connection =
  c_open :: bool
  c_sent :: "frame list"

type_synonym transport = "connection list"

definition conn_isOpen :: "nat \<Rightarrow> transport \<Rightarrow> bool" where
  "conn_isOpen c t = (c < length t \<and> c_open (t ! c))"

definition conn_sendMessage :: "nat \<Rightarrow> frame \<Rightarrow> transport \<Rightarrow> (error + unit) \<times> transport" where
  "conn_sendMessage c f t =
     (if conn_isOpen c t then (Inr (), t[c := (t ! c)\<lparr>c_sent := c_sent (t ! c) @ [f]\<rparr>])
      else (Inl IOException, t))"

definition conn_disconnect :: "nat \<Rightarrow> transport \<Rightarrow> transport" where
  "conn_disconnect c t = (if c < length t then t[c := (t ! c)\<lparr>c_open := False\<rparr>] else t)"

text \<open>
  The socket object of \<^verbatim>\<open>doWebSocketConnect\<close>: the closure variable \<^verbatim>\<open>conn\<close>
  (\<open>None\<close> while it is \<^verbatim>\<open>undefined\<close>) and the table of listeners that the
  event-emitter mixin keeps for it. The listener that \<^verbatim>\<open>doWebSocketConnect\<close> registers
  itself, \<^verbatim>\<open>function(connection) { conn = connection; }\<close>, is \<open>SetConn\<close>; listeners
  registered by application code are opaque.
\<close>

datatype listener = SetConn | AppListener nat

record socket =
  conn :: "nat option"
  listeners :: "(string \<times> listener) list"

text \<open>
  Modelled from the spec: \<^verbatim>\<open>addListener\<close> of \<^verbatim>\<open>JavaEventEmitter\<close>
  (\<^verbatim>\<open>ringo/events\<close>), which is mixed into the socket object and whose source is
  missing. Following the spec, the channel owns a table of listeners per event name, kept
  in registration order.
\<close>

definition addListener :: "string \<Rightarrow> listener \<Rightarrow> socket \<Rightarrow> socket" where
  "addListener ev l sock = sock\<lparr>listeners := listeners sock @ [(ev, l)]\<rparr>"

fun runListener :: "listener \<Rightarrow> nat \<Rightarrow> socket \<Rightarrow> socket" where
  "runListener SetConn connection sock = sock\<lparr>conn := Some connection\<rparr>"
| "runListener (AppListener k) connection sock = sock"

text \<open>
  Modelled from the spec: the emission of "open" by \<^verbatim>\<open>JavaEventEmitter\<close>
  (\<^verbatim>\<open>ringo/events\<close>, source missing). When the transport accepts the connection, the
  listeners registered for "open" run in registration order with the connection as argument.
\<close>

definition fireOpen :: "nat \<Rightarrow> socket \<Rightarrow> socket" where
  "fireOpen connection sock =
     foldl (\<lambda>s l. runListener l connection s) sock
       (map snd (filter (\<lambda>(ev, l). ev = ''open'') (listeners sock)))"

text \<open>The methods of the socket object.\<close>

definition close :: "socket \<Rightarrow> transport \<Rightarrow> (error + unit) \<times> transport" where
  "close sock t =
     (case conn sock of
        None \<Rightarrow> (Inr (), t)
      | Some c \<Rightarrow> (Inr (), conn_disconnect c t))"

definition send :: "socket \<Rightarrow> string \<Rightarrow> transport \<Rightarrow> (error + unit) \<times> transport" where
  "send sock msg t =
     (case conn sock of
        None \<Rightarrow> (Inr (), t)
      | Some c \<Rightarrow> conn_sendMessage c (TextFrame msg) t)"

definition sendBinary ::
  "socket \<Rightarrow> bytes \<Rightarrow> jsval \<Rightarrow> jsval \<Rightarrow> transport \<Rightarrow> (error + unit) \<times> transport" where
  "sendBinary sock bytearray offset len t =
     (case conn sock of
        None \<Rightarrow> (Inr (), t)
      | Some c \<Rightarrow>
          (let offset' = numberOr (parseInt10 offset) 0;
               length' = numberOr (parseInt10 len) (int (length bytearray))
           in conn_sendMessage c (BinaryFrame bytearray offset' length') t))"

text \<open>
  \<^verbatim>\<open>return conn && conn.isOpen()\<close>: the value of \<^verbatim>\<open>conn\<close> itself while it is
  falsy, the transport's answer otherwise.
\<close>

definition isOpen :: "socket \<Rightarrow> transport \<Rightarrow> jsval" where
  "isOpen sock t =
     (case conn sock of
        None \<Rightarrow> Undefined
      | Some c \<Rightarrow> JBool (conn_isOpen c t))"

text \<open>
  \<^verbatim>\<open>doWebSocketConnect(request, protocol)\<close>, the method of the servlet that
  \<^verbatim>\<open>addWebSocket(path, onconnect)\<close> installs. Every call builds a new socket object;
  the objects live in a store and a reference is an index into it. \<^verbatim>\<open>onconnect\<close> is
  application code: when it is a function it receives the socket reference, the request and
  the protocol, may change the sockets and the application's own state, and may throw.
\<close>

record 'u world =
  sockets :: "socket list"
  appState :: 'u

datatype ('r, 'p, 'u) callback =
    NotAFunction
  | Function "nat \<Rightarrow> 'r \<Rightarrow> 'p \<Rightarrow> 'u world \<Rightarrow> error option \<times> 'u world"

datatype impl = Impl nat

definition newSocket :: socket where
  "newSocket = addListener ''open'' SetConn \<lparr>conn = None, listeners = []\<rparr>"

definition doWebSocketConnect ::
  "('r, 'p, 'u) callback \<Rightarrow> 'r \<Rightarrow> 'p \<Rightarrow> 'u world \<Rightarrow> (error + impl) \<times> 'u world" where
  "doWebSocketConnect onconnect request protocol w =
     (let socket = length (sockets w);
          w1 = w\<lparr>sockets := sockets w @ [newSocket]\<rparr>
      in case onconnect of
           NotAFunction \<Rightarrow> (Inr (Impl socket), w1)
         | Function f \<Rightarrow>
             (case f socket request protocol w1 of
                (Some e, w2) \<Rightarrow> (Inl e, w2)
              | (None, w2) \<Rightarrow> (Inr (Impl socket), w2)))"

section \<open>The Jetty server, as the module uses it\<close>

text \<open>
  Jetty is an external collaborator. A \<^verbatim>\<open>ServletContextHandler\<close> is modelled by the
  settings the module gives it; the server by its running flag, the handlers added to its
  "Contexts" collection (a handler's identity is its index there), its connectors (open or
  not) and the life cycle calls made on it.
\<close>

datatype servlet =
    JsgiServlet "nat option"
  | DefaultServlet
  | WebSocketServlet
  | JavaServlet nat

record holder =
  servlet :: servlet
  initParameters :: "(string \<times> string) list"

record cookieConfig =
  ck_httpOnly :: jsval
  ck_secure :: jsval
  ck_name :: "string option"
  ck_domain :: jsval
  ck_path :: jsval

record handler =
  h_path :: string
  h_sessions :: bool
  h_security :: bool
  h_virtualHosts :: "jsval list option"
  h_cookies :: "cookieConfig option"
  h_resourceBase :: "string option"
  h_servlets :: "(holder \<times> string) list"
  h_started :: bool

datatype jcall = JStart | JStop | JDestroy

record jetty =
  j_running :: bool
  j_contexts :: "handler list"
  j_connectors :: "bool list"
  j_calls :: "jcall list"

definition newServletContextHandler :: "string \<Rightarrow> bool \<Rightarrow> bool \<Rightarrow> jetty \<Rightarrow> nat \<times> jetty" where
  "newServletContextHandler path sessions security j =
     (length (j_contexts j),
      j\<lparr>j_contexts := j_contexts j @
           [\<lparr>h_path = path, h_sessions = sessions, h_security = security,
             h_virtualHosts = None, h_cookies = None, h_resourceBase = None,
             h_servlets = [], h_started = False\<rparr>]\<rparr>)"

definition onHandler :: "nat \<Rightarrow> (handler \<Rightarrow> handler) \<Rightarrow> jetty \<Rightarrow> jetty" where
  "onHandler cx f j =
     (if cx < length (j_contexts j)
      then j\<lparr>j_contexts := (j_contexts j)[cx := f (j_contexts j ! cx)]\<rparr> else j)"

definition jetty_start :: "jetty \<Rightarrow> jetty" where
  "jetty_start j =
     j\<lparr>j_running := True,
       j_contexts := map (\<lambda>h. h\<lparr>h_started := True\<rparr>) (j_contexts j),
       j_connectors := map (\<lambda>c. True) (j_connectors j),
       j_calls := j_calls j @ [JStart]\<rparr>"

definition jetty_stop :: "jetty \<Rightarrow> jetty" where
  "jetty_stop j =
     j\<lparr>j_running := False,
       j_contexts := map (\<lambda>h. h\<lparr>h_started := False\<rparr>) (j_contexts j),
       j_connectors := map (\<lambda>c. False) (j_connectors j),
       j_calls := j_calls j @ [JStop]\<rparr>"

definition jetty_destroy :: "jetty \<Rightarrow> jetty" where
  "jetty_destroy j = j\<lparr>j_calls := j_calls j @ [JDestroy]\<rparr>"

section \<open>The Server object\<close>

text \<open>
  The closure state of one \<^verbatim>\<open>Server\<close> instance. \<^verbatim>\<open>contextMap\<close> is a plain
  object used as a dictionary; its own properties, in insertion order, map a context key to
  the handler registered under it.

  Reading \<^verbatim>\<open>contextMap[contextKey]\<close> finds an own property first and otherwise what
  every plain object inherits from \<^verbatim>\<open>Object.prototype\<close>: the properties of the
  language standard and the ones the Rhino engine adds. All of these are functions, hence
  truthy. So the value read, \<^verbatim>\<open>cx\<close>, is a handler or an inherited function.
\<close>

definition inheritedProperty :: "string \<Rightarrow> bool" where
  "inheritedProperty key =
     (key \<in> set [''constructor'', ''toString'', ''toLocaleString'', ''valueOf'',
                 ''hasOwnProperty'', ''isPrototypeOf'', ''propertyIsEnumerable'', ''toSource'',
                 ''__defineGetter__'', ''__defineSetter__'',
                 ''__lookupGetter__'', ''__lookupSetter__''])"

datatype cxref = Handler nat | Inherited string

definition lookupContext :: "(string \<times> nat) list \<Rightarrow> string \<Rightarrow> cxref option" where
  "lookupContext m key =
     (case map_of m key of
        Some h \<Rightarrow> Some (Handler h)
      | None \<Rightarrow> if inheritedProperty key then Some (Inherited key) else None)"

text \<open>
  A Context, the object \<^verbatim>\<open>getContext\<close> returns, is a set of methods closed over
  \<^verbatim>\<open>cx\<close> with no state of its own; it is identified by \<^verbatim>\<open>cx\<close>, which
  \<^verbatim>\<open>getHandler()\<close> returns.
\<close>

datatype Context = Context (getHandler: cxref)

record server =
  jetty :: jetty
  defaultContext :: "Context option"
  contextMap :: "(string \<times> nat) list"
  props :: "(string \<times> string) list"

text \<open>The \<^verbatim>\<open>options\<close> argument of \<^verbatim>\<open>getContext\<close>; \<^verbatim>\<open>{}\<close> has every property undefined.\<close>

record contextOptions =
  cx_sessions :: jsval
  cx_security :: jsval
  cx_cookieName :: jsval
  cx_cookieDomain :: jsval
  cx_cookiePath :: jsval
  cx_httpOnlyCookies :: jsval
  cx_secureCookies :: jsval

definition emptyObject :: contextOptions where
  "emptyObject =
     \<lparr>cx_sessions = Undefined, cx_security = Undefined, cx_cookieName = Undefined,
      cx_cookieDomain = Undefined, cx_cookiePath = Undefined,
      cx_httpOnlyCookies = Undefined, cx_secureCookies = Undefined\<rparr>"

definition contextKey :: "jsval \<Rightarrow> string \<Rightarrow> string" where
  "contextKey virtualHosts path =
     (if truthy virtualHosts then ToString virtualHosts @ path else path)"

definition virtualHostArray :: "jsval \<Rightarrow> jsval list" where
  "virtualHostArray virtualHosts =
     (case virtualHosts of JArr vs \<Rightarrow> vs | _ \<Rightarrow> [JStr (ToString virtualHosts)])"

definition sessionCookieConfig :: "contextOptions \<Rightarrow> cookieConfig" where
  "sessionCookieConfig options =
     \<lparr>ck_httpOnly = cx_httpOnlyCookies options,
      ck_secure = cx_secureCookies options,
      ck_name = (case cx_cookieName options of JStr n \<Rightarrow> Some n | _ \<Rightarrow> None),
      ck_domain = cx_cookieDomain options,
      ck_path = cx_cookiePath options\<rparr>"

text \<open>
  \<^verbatim>\<open>getContext(path, virtualHosts, options)\<close>. A session handler exists exactly when the
  handler was created with sessions enabled, so \<^verbatim>\<open>sessionHandler != null\<close> is the
  \<open>sessions\<close> flag.
\<close>

definition getContext ::
  "string \<Rightarrow> jsval \<Rightarrow> contextOptions option \<Rightarrow> server \<Rightarrow> Context \<times> server" where
  "getContext path virtualHosts options s =
     (let options = (case options of None \<Rightarrow> emptyObject | Some opts \<Rightarrow> opts);
          key = contextKey virtualHosts path
      in case lookupContext (contextMap s) key of
           Some cx \<Rightarrow> (Context cx, s)
         | None \<Rightarrow>
             (let sessions = truthy (cx_sessions options);
                  security = truthy (cx_security options);
                  (cx, j1) = newServletContextHandler path sessions security (jetty s);
                  j2 = (if truthy virtualHosts
                        then onHandler cx
                               (\<lambda>h. h\<lparr>h_virtualHosts := Some (virtualHostArray virtualHosts)\<rparr>) j1
                        else j1);
                  j3 = (if sessions
                        then onHandler cx
                               (\<lambda>h. h\<lparr>h_cookies := Some (sessionCookieConfig options)\<rparr>) j2
                        else j2);
                  j4 = (if j_running j3
                        then onHandler cx (\<lambda>h. h\<lparr>h_started := True\<rparr>) j3
                        else j3)
              in (Context (Handler cx),
                  s\<lparr>jetty := j4, contextMap := contextMap s @ [(key, cx)]\<rparr>)))"

text \<open>\<^verbatim>\<open>v || d\<close> for an optional string property: absent and empty are falsy.\<close>

definition stringOr :: "string option \<Rightarrow> string \<Rightarrow> string" where
  "stringOr v d = (case v of None \<Rightarrow> d | Some x \<Rightarrow> if x \<noteq> [] then x else d)"

definition present :: "string option \<Rightarrow> bool" where
  "present v = (case v of None \<Rightarrow> False | Some x \<Rightarrow> x \<noteq> [])"

text \<open>
  The methods of a Context. An application is a function, or an object naming it by
  \<^verbatim>\<open>appModule\<close> and \<^verbatim>\<open>appName\<close>. Each method ends in a call on \<^verbatim>\<open>cx\<close>
  (\<^verbatim>\<open>cx.addServlet\<close>, \<^verbatim>\<open>cx.setResourceBase\<close>); when \<^verbatim>\<open>cx\<close> is an
  inherited function and not a handler, that call is a \<^verbatim>\<open>TypeError\<close>.
\<close>

datatype app = AppFunction nat | AppObject "string option" "string option"

definition cx_addServlet :: "holder \<Rightarrow> string \<Rightarrow> cxref \<Rightarrow> server \<Rightarrow> error + server" where
  "cx_addServlet servletHolder pathSpec cx s =
     (case cx of
        Handler h \<Rightarrow>
          Inr (s\<lparr>jetty := onHandler h
                 (\<lambda>hd. hd\<lparr>h_servlets := h_servlets hd @ [(servletHolder, pathSpec)]\<rparr>) (jetty s)\<rparr>)
      | Inherited key \<Rightarrow> Inl TypeError)"

definition serveApplication :: "app \<Rightarrow> Context \<Rightarrow> server \<Rightarrow> error + server" where
  "serveApplication application c s =
     (let servletHolder =
            (case application of
               AppFunction f \<Rightarrow> \<lparr>servlet = JsgiServlet (Some f), initParameters = []\<rparr>
             | AppObject appModule appName \<Rightarrow>
                 \<lparr>servlet = JsgiServlet None,
                  initParameters = [(''app-module'', stringOr appModule ''main''),
                                    (''app-name'', stringOr appName ''app'')]\<rparr>)
      in cx_addServlet servletHolder ''/*'' (getHandler c) s)"

definition serveStatic ::
  "(string \<Rightarrow> string option) \<Rightarrow> string \<Rightarrow> Context \<Rightarrow> server \<Rightarrow> error + server" where
  "serveStatic getRepository dir c s =
     (let base = (case getRepository dir of Some repoPath \<Rightarrow> repoPath | None \<Rightarrow> dir)
      in case getHandler c of
           Handler h \<Rightarrow>
             cx_addServlet \<lparr>servlet = DefaultServlet, initParameters = []\<rparr> ''/*'' (Handler h)
               (s\<lparr>jetty := onHandler h (\<lambda>hd. hd\<lparr>h_resourceBase := Some base\<rparr>) (jetty s)\<rparr>)
         | Inherited key \<Rightarrow> Inl TypeError)"

definition addServlet ::
  "string \<Rightarrow> servlet \<Rightarrow> (string \<times> string) list \<Rightarrow> Context \<Rightarrow> server \<Rightarrow> error + server" where
  "addServlet servletPath sv initParams c s =
     cx_addServlet \<lparr>servlet = sv, initParameters = initParams\<rparr> servletPath (getHandler c) s"

text \<open>
  \<^verbatim>\<open>addWebSocket(path, onconnect)\<close> registers a \<^verbatim>\<open>WebSocketServlet\<close> whose
  \<^verbatim>\<open>doWebSocketConnect\<close> method is \<open>doWebSocketConnect onconnect\<close> above.
\<close>

definition addWebSocket :: "string \<Rightarrow> Context \<Rightarrow> server \<Rightarrow> error + server" where
  "addWebSocket path c s = addServlet path WebSocketServlet [] c s"

definition Server_start :: "server \<Rightarrow> server" where
  "Server_start s = s\<lparr>jetty := jetty_start (jetty s)\<rparr>"

definition Server_stop :: "server \<Rightarrow> server" where
  "Server_stop s = s\<lparr>jetty := jetty_stop (jetty s), contextMap := []\<rparr>"

definition Server_destroy :: "server \<Rightarrow> server" where
  "Server_destroy s = s\<lparr>jetty := jetty_destroy (jetty s)\<rparr>"

definition isRunning :: "server \<Rightarrow> bool" where
  "isRunning s = j_running (jetty s)"

text \<open>
  The \<^verbatim>\<open>options\<close> object of the constructor, which is also what \<^verbatim>\<open>parseOptions\<close>
  returns. String-valued properties are \<open>None\<close> when absent, flags likewise;
  \<^verbatim>\<open>app\<close> is \<open>Some f\<close> when it is a function. \<^verbatim>\<open>port\<close> and
  \<^verbatim>\<open>virtualHost\<close> are kept as JavaScript values, since the code converts them.
\<close>

record options =
  jettyConfig :: "string option"
  port :: jsval
  host :: "string option"
  sessions :: "bool option"
  security :: "bool option"
  cookieName :: "string option"
  cookieDomain :: "string option"
  cookiePath :: "string option"
  httpOnlyCookies :: "bool option"
  secureCookies :: "bool option"
  virtualHost :: jsval
  mountpoint :: "string option"
  staticDir :: "string option"
  staticMountpoint :: "string option"
  appModule :: "string option"
  appName :: "string option"
  app :: "nat option"
  helpOption :: "bool option"

definition noOptions :: options where
  "noOptions =
     \<lparr>jettyConfig = None, port = Undefined, host = None, sessions = None, security = None,
      cookieName = None, cookieDomain = None, cookiePath = None, httpOnlyCookies = None,
      secureCookies = None, virtualHost = Undefined, mountpoint = None, staticDir = None,
      staticMountpoint = None, appModule = None, appName = None, app = None, helpOption = None\<rparr>"

text \<open>
  What the constructor reads from the runtime: whether a resource exists, how many
  connectors the Jetty configuration file declares, the path of an existing repository, and
  \<^verbatim>\<open>files.resolveId\<close>.
\<close>

record env =
  resourceExists :: "string \<Rightarrow> bool"
  configConnectors :: "string \<Rightarrow> nat"
  getRepository :: "string \<Rightarrow> string option"
  resolveId :: "string option \<Rightarrow> string \<Rightarrow> string"

definition stringOrNull :: "string option \<Rightarrow> jsval" where
  "stringOrNull v = (case v of None \<Rightarrow> Null | Some x \<Rightarrow> if x \<noteq> [] then JStr x else Null)"

definition defaultContextOptions :: "options \<Rightarrow> contextOptions" where
  "defaultContextOptions options =
     \<lparr>cx_sessions = JBool (sessions options \<noteq> Some False),
      cx_security = JBool (security options \<noteq> Some False),
      cx_cookieName = stringOrNull (cookieName options),
      cx_cookieDomain = stringOrNull (cookieDomain options),
      cx_cookiePath = stringOrNull (cookiePath options),
      cx_httpOnlyCookies = JBool (httpOnlyCookies options = Some True),
      cx_secureCookies = JBool (secureCookies options = Some True)\<rparr>"

text \<open>
  The stages of the constructor, in the order of the source. First the Jetty server is
  created and configured from the configuration file, with the port (default 8080) and the
  host passed as properties.
\<close>

definition configure :: "env \<Rightarrow> options \<Rightarrow> string \<Rightarrow> server" where
  "configure e options jettyFile =
     (let p1 = [(''port'', if truthy (port options) then ToString (port options) else ''8080'')];
          p2 = (if present (host options) then p1 @ [(''host'', stringOr (host options) [])] else p1)
      in \<lparr>jetty = \<lparr>j_running = False, j_contexts = [],
                    j_connectors = replicate (configConnectors e jettyFile) False,
                    j_calls = []\<rparr>,
          defaultContext = None, contextMap = [], props = p2\<rparr>)"

text \<open>If options defines an application mount it.\<close>

definition mountApplication :: "options \<Rightarrow> Context \<Rightarrow> server \<Rightarrow> error + server" where
  "mountApplication options dc s =
     (case app options of
        Some f \<Rightarrow> serveApplication (AppFunction f) dc s
      | None \<Rightarrow>
          if present (appModule options) \<and> present (appName options)
          then serveApplication (AppObject (appModule options) (appName options)) dc s
          else Inr s)"

text \<open>Allow definition of app/static mappings in server config for convenience.\<close>

definition mountStatic :: "env \<Rightarrow> options \<Rightarrow> server \<Rightarrow> error + server" where
  "mountStatic e options s =
     (if present (staticDir options)
      then (let (staticContext, s1) =
                  getContext (stringOr (staticMountpoint options) ''/static'')
                    (virtualHost options) None s
            in serveStatic (getRepository e)
                 (resolveId e (appModule options) (stringOr (staticDir options) []))
                 staticContext s1)
      else Inr s)"

text \<open>Start listeners: every connector is opened.\<close>

definition openConnectors :: "server \<Rightarrow> server" where
  "openConnectors s =
     s\<lparr>jetty := (jetty s)\<lparr>j_connectors := map (\<lambda>c. True) (j_connectors (jetty s))\<rparr>\<rparr>"

text \<open>
  The body of \<^verbatim>\<open>function Server(options)\<close> after the guard, run with \<^verbatim>\<open>this\<close>
  bound to some object: it installs the methods on \<^verbatim>\<open>this\<close>, closed over the state
  built here, and ends without a \<^verbatim>\<open>return\<close>. The result is that state. The explicit
  \<^verbatim>\<open>throw\<close> is the one for a missing configuration resource, before the Jetty server is
  created; mounting on a \<^verbatim>\<open>cx\<close> that is not a handler throws as well.
\<close>

definition Server_body :: "env \<Rightarrow> options option \<Rightarrow> error + server" where
  "Server_body e opts =
     (let options = (case opts of None \<Rightarrow> noOptions | Some given \<Rightarrow> given);
          jettyFile = stringOr (jettyConfig options) ''config/jetty.xml''
      in if \<not> resourceExists e jettyFile
         then Inl (Error (''Resource \"'' @ jettyFile @ ''\" not found''))
         else
           (let s0 = configure e options jettyFile;
                (dc, s1) = getContext (stringOr (mountpoint options) ''/'') (virtualHost options)
                             (Some (defaultContextOptions options)) s0;
                s2 = s1\<lparr>defaultContext := Some dc\<rparr>
            in case mountApplication options dc s2 of
                 Inl err \<Rightarrow> Inl err
               | Inr s3 \<Rightarrow>
                   (case mountStatic e options s3 of
                      Inl err \<Rightarrow> Inl err
                    | Inr s4 \<Rightarrow> Inr (openConnectors s4))))"

text \<open>
  Calling the function. \<^verbatim>\<open>this\<close> is either an instance of \<^verbatim>\<open>Server\<close> or some
  other object: the global object or the module's exports in a plain call
  \<^verbatim>\<open>Server(options)\<close>. A call that does not throw either returns a Server instance
  (given by its state) and leaves its \<^verbatim>\<open>this\<close> untouched, or returns
  \<^verbatim>\<open>undefined\<close> after the body has installed the methods, over the state it built,
  on \<^verbatim>\<open>this\<close>.

  \<^verbatim>\<open>new Server(options)\<close> calls the function with \<^verbatim>\<open>this\<close> bound to a new
  instance and yields the object the call returns, or that new instance when the call
  returns \<^verbatim>\<open>undefined\<close>.
\<close>

datatype thisObject = ServerInstance | OtherObject

datatype outcome =
    ReturnedObject server
  | ReturnedUndefined server

function Server :: "env \<Rightarrow> thisObject \<Rightarrow> options option \<Rightarrow> error + outcome"
  and Server_new :: "env \<Rightarrow> options option \<Rightarrow> error + server" where
  "Server e this opts =
     (if this \<noteq> ServerInstance
      then (case Server_new e opts of
              Inl err \<Rightarrow> Inl err
            | Inr obj \<Rightarrow> Inr (ReturnedObject obj))
      else (case Server_body e opts of
              Inl err \<Rightarrow> Inl err
            | Inr s \<Rightarrow> Inr (ReturnedUndefined s)))"
| "Server_new e opts =
     (case Server e ServerInstance opts of
        Inl err \<Rightarrow> Inl err
      | Inr (ReturnedObject obj) \<Rightarrow> Inr obj
      | Inr (ReturnedUndefined s) \<Rightarrow> Inr s)"
  by pat_completeness auto
termination
  by (relation "measure (\<lambda>x. case x of
                   Inl (e, this, opts) \<Rightarrow> (if this = ServerInstance then 0 else 2)
                 | Inr (e, opts) \<Rightarrow> 1)") auto

declare Server.simps [simp del]

declare Server_new.simps [simp del]

section \<open>Command line options\<close>

text \<open>
  \<^verbatim>\<open>isFinite(v)\<close> converts \<open>v\<close> to a number and tests that it is neither NaN nor
  infinite. For a string this is the grammar of string numeric literals: optional white
  space around nothing (the number 0), a hexadecimal integer literal, or an optionally signed
  decimal literal with optional fraction and exponent. The literal \<^verbatim>\<open>Infinity\<close> and
  any value that rounds to an infinite double (from \<open>2^1024 - 2^970\<close> on) are not finite.
\<close>

definition isHexDigit :: "char \<Rightarrow> bool" where
  "isHexDigit c =
     (isDecimalDigit c \<or> (65 \<le> (of_char c :: nat) \<and> (of_char c :: nat) \<le> 70)
        \<or> (97 \<le> (of_char c :: nat) \<and> (of_char c :: nat) \<le> 102))"

definition hexDigitValue :: "char \<Rightarrow> int" where
  "hexDigitValue c =
     (if isDecimalDigit c then of_char c - 48
      else if (of_char c :: nat) \<le> 70 then of_char c - 55 else of_char c - 87)"

definition hexValue :: "string \<Rightarrow> int" where
  "hexValue ds = foldl (\<lambda>a c. 16 * a + hexDigitValue c) 0 ds"

definition overflowBound :: int where
  "overflowBound = 2 ^ 1024 - 2 ^ 970"

definition trimWhiteSpace :: "string \<Rightarrow> string" where
  "trimWhiteSpace s = rev (dropWhile isStrWhiteSpaceChar (rev (dropWhile isStrWhiteSpaceChar s)))"

text \<open>The exponent part, which must reach the end of the literal; absent, it is 0.\<close>

fun exponentPart :: "string \<Rightarrow> int option" where
  "exponentPart [] = Some 0"
| "exponentPart (c # cs) =
     (if (c = CHR ''e'' \<or> c = CHR ''E'') \<and> stripSign cs \<noteq> [] \<and> list_all isDecimalDigit (stripSign cs)
      then Some ((if isNegative cs then - 1 else 1) * decimalValue (stripSign cs))
      else None)"

fun fractionPart :: "string \<Rightarrow> string \<times> string" where
  "fractionPart [] = ([], [])"
| "fractionPart (c # cs) =
     (if c = CHR ''.'' then (takeWhile isDecimalDigit cs, dropWhile isDecimalDigit cs)
      else ([], c # cs))"

definition decimalLiteralFinite :: "string \<Rightarrow> bool" where
  "decimalLiteralFinite u =
     (let ip = takeWhile isDecimalDigit u;
          (fp, rest) = fractionPart (dropWhile isDecimalDigit u)
      in if ip = [] \<and> fp = [] then False
         else case exponentPart rest of
                None \<Rightarrow> False
              | Some ex \<Rightarrow>
                  (let m = decimalValue (ip @ fp); k = ex - int (length fp)
                   in if 0 \<le> k then m * 10 ^ nat k < overflowBound
                      else m < overflowBound * 10 ^ nat (- k)))"

definition isHexLiteral :: "string \<Rightarrow> bool" where
  "isHexLiteral t =
     ((take 2 t = ''0x'' \<or> take 2 t = ''0X'') \<and> drop 2 t \<noteq> [] \<and> list_all isHexDigit (drop 2 t))"

definition stringIsFinite :: "string \<Rightarrow> bool" where
  "stringIsFinite s =
     (let t = trimWhiteSpace s
      in if t = [] then True
         else if isHexLiteral t then hexValue (drop 2 t) < overflowBound
         else decimalLiteralFinite (stripSign t))"

fun isFinite :: "jsval \<Rightarrow> bool" where
  "isFinite Undefined = False"
| "isFinite Null = True"
| "isFinite (JBool b) = True"
| "isFinite (JNum n) = True"
| "isFinite (JStr s) = stringIsFinite s"
| "isFinite (JArr vs) = stringIsFinite (ToString (JArr vs))"

text \<open>
  \<^verbatim>\<open>parseOptions(args, defaults)\<close>. The option parser of \<^verbatim>\<open>ringo/args\<close> is a
  parameter: \<open>parse\<close> maps the arguments left after \<^verbatim>\<open>args.shift()\<close> to the options
  object, defaults included, or throws. Printing the usage text ends in
  \<^verbatim>\<open>system.exit(0)\<close>.
\<close>

definition invalidPort :: "jsval \<Rightarrow> error" where
  "invalidPort p = Thrown (''Invalid value for port: '' @ ToString p)"

definition parseOptions :: "(string list \<Rightarrow> error + options) \<Rightarrow> string list \<Rightarrow> error + options" where
  "parseOptions parse args =
     (case parse (tl args) of
        Inl e \<Rightarrow> Inl e
      | Inr options \<Rightarrow>
          (case (if truthy (port options) \<and> \<not> isFinite (port options)
                 then (case parseInt10 (port options) of
                         None \<Rightarrow> Inl (invalidPort (port options))
                       | Some p \<Rightarrow>
                           if p < 1 then Inl (invalidPort (port options))
                           else Inr (options\<lparr>port := JNum p\<rparr>))
                 else Inr options) of
             Inl e \<Rightarrow> Inl e
           | Inr options' \<Rightarrow>
               if helpOption options' = Some True then Inl (Exit 0) else Inr options'))"

section \<open>Daemon life cycle\<close>

text \<open>
  The module variables \<^verbatim>\<open>options\<close>, \<^verbatim>\<open>server\<close> and \<^verbatim>\<open>started\<close>, with the
  state of the application next to them. \<^verbatim>\<open>server\<close> is \<open>None\<close> while it is
  \<^verbatim>\<open>undefined\<close> or \<^verbatim>\<open>null\<close>. A hook exported by the application module is
  application code: it is given the server, may change it and the application's state, and
  may throw.
\<close>

record 'u daemon =
  m_options :: "options option"
  m_server :: "server option"
  m_started :: bool
  m_appState :: 'u

type_synonym 'u hook = "server option \<Rightarrow> 'u \<Rightarrow> error option \<times> server option \<times> 'u"

record 'u exports =
  export_start :: "'u hook option"
  export_stop :: "'u hook option"
  export_destroy :: "'u hook option"

text \<open>\<^verbatim>\<open>require(options.appModule)\<close>, with the module loader as a parameter.\<close>

definition requireApp :: "(string option \<Rightarrow> error + 'u exports) \<Rightarrow> 'u daemon \<Rightarrow> error + 'u exports" where
  "requireApp require d =
     (case m_options d of
        None \<Rightarrow> Inl TypeError
      | Some options \<Rightarrow> require (appModule options))"

definition callHook :: "'u hook option \<Rightarrow> 'u daemon \<Rightarrow> error option \<times> 'u daemon" where
  "callHook h d =
     (case h of
        None \<Rightarrow> (None, d)
      | Some f \<Rightarrow>
          (case f (m_server d) (m_appState d) of
             (r, srv, u) \<Rightarrow> (r, d\<lparr>m_server := srv, m_appState := u\<rparr>)))"

definition start :: "(string option \<Rightarrow> error + 'u exports) \<Rightarrow> 'u daemon \<Rightarrow> (error + server option) \<times> 'u daemon" where
  "start require d =
     (if m_started d then (Inr (m_server d), d)
      else case m_server d of
             None \<Rightarrow> (Inl TypeError, d)
           | Some srv \<Rightarrow>
               (let d1 = d\<lparr>m_server := Some (Server_start srv), m_started := True\<rparr>
                in case requireApp require d1 of
                     Inl e \<Rightarrow> (Inl e, d1)
                   | Inr application \<Rightarrow>
                       (case callHook (export_start application) d1 of
                          (Some e, d2) \<Rightarrow> (Inl e, d2)
                        | (None, d2) \<Rightarrow> (Inr (m_server d2), d2))))"

definition stop :: "(string option \<Rightarrow> error + 'u exports) \<Rightarrow> 'u daemon \<Rightarrow> (error + server option) \<times> 'u daemon" where
  "stop require d =
     (if \<not> m_started d then (Inr (m_server d), d)
      else case requireApp require d of
             Inl e \<Rightarrow> (Inl e, d)
           | Inr application \<Rightarrow>
               (case callHook (export_stop application) d of
                  (Some e, d1) \<Rightarrow> (Inl e, d1)
                | (None, d1) \<Rightarrow>
                    (case m_server d1 of
                       None \<Rightarrow> (Inl TypeError, d1)
                     | Some srv \<Rightarrow>
                         (let d2 = d1\<lparr>m_server := Some (Server_stop srv), m_started := False\<rparr>
                          in (Inr (m_server d2), d2)))))"

definition destroy :: "(string option \<Rightarrow> error + 'u exports) \<Rightarrow> 'u daemon \<Rightarrow> (error + server option) \<times> 'u daemon" where
  "destroy require d =
     (case m_server d of
        None \<Rightarrow> (Inr (m_server d), d\<lparr>m_server := None\<rparr>)
      | Some srv \<Rightarrow>
          (case requireApp require d of
             Inl e \<Rightarrow> (Inl e, d)
           | Inr application \<Rightarrow>
               (case callHook (export_destroy application) d of
                  (Some e, d1) \<Rightarrow> (Inl e, d1)
                | (None, d1) \<Rightarrow>
                    (case m_server d1 of
                       None \<Rightarrow> (Inl TypeError, d1)
                     | Some srv1 \<Rightarrow>
                         (Inr (Some (Server_destroy srv1)), d1\<lparr>m_server := None\<rparr>)))))"

section \<open>Well-formed registries\<close>

text \<open>
  The registry of a server is well formed when no handler is registered under two keys and
  every registered handler is one of Jetty's. Its keys are its own when none of them names
  an inherited property: reading such a key never misses, so nothing is ever registered
  under it. The constructor establishes both and \<^verbatim>\<open>getContext\<close>,
  \<^verbatim>\<open>start\<close>, \<^verbatim>\<open>stop\<close> and the methods of a Context keep them.
\<close>

definition registryOk :: "server \<Rightarrow> bool" where
  "registryOk s =
     (distinct (map snd (contextMap s)) \<and>
      list_all (\<lambda>kv. snd kv < length (j_contexts (jetty s))) (contextMap s))"

definition keysOwn :: "server \<Rightarrow> bool" where
  "keysOwn s = list_all (\<lambda>kv. \<not> inheritedProperty (fst kv)) (contextMap s)"

section \<open>Example states\<close>

text \<open>
  A runtime in which only the default configuration file exists and declares one connector;
  the server \<^verbatim>\<open>new Server()\<close> builds there; a socket whose "open" event has fired
  with connection 0; and an application whose hooks count their calls.
\<close>

definition demoEnv :: env where
  "demoEnv =
     \<lparr>resourceExists = (\<lambda>f. f = ''config/jetty.xml''), configConnectors = (\<lambda>f. 1),
      getRepository = (\<lambda>d. None), resolveId = (\<lambda>m d. d)\<rparr>"

definition demoServer :: server where
  "demoServer =
     \<lparr>jetty =
        \<lparr>j_running = False,
         j_contexts =
           [\<lparr>h_path = ''/'', h_sessions = True, h_security = True, h_virtualHosts = None,
             h_cookies = Some \<lparr>ck_httpOnly = JBool False, ck_secure = JBool False,
                               ck_name = None, ck_domain = Null, ck_path = Null\<rparr>,
             h_resourceBase = None, h_servlets = [], h_started = False\<rparr>],
         j_connectors = [True], j_calls = []\<rparr>,
      defaultContext = Some (Context (Handler 0)), contextMap = [(''/'', 0)],
      props = [(''port'', ''8080'')]\<rparr>"

definition demoSocket :: socket where
  "demoSocket = fireOpen 0 newSocket"

definition demoTransport :: transport where
  "demoTransport = [\<lparr>c_open = True, c_sent = []\<rparr>]"

definition demoWorld :: "nat world" where
  "demoWorld = \<lparr>sockets = [], appState = 0\<rparr>"

definition demoCallback :: "(unit, unit, nat) callback" where
  "demoCallback = Function (\<lambda>sock request protocol w. (None, w\<lparr>appState := Suc (appState w)\<rparr>))"

definition demoRequire :: "string option \<Rightarrow> error + nat exports" where
  "demoRequire m =
     Inr \<lparr>export_start = Some (\<lambda>srv u. (None, srv, u + 1)),
          export_stop = Some (\<lambda>srv u. (None, srv, u + 10)),
          export_destroy = None\<rparr>"

definition demoDaemon :: "nat daemon" where
  "demoDaemon =
     \<lparr>m_options = Some (noOptions\<lparr>appModule := Some ''main''\<rparr>), m_server = Some demoServer,
      m_started = False, m_appState = 0\<rparr>"

section \<open>Facts about the registry\<close>

lemma Server_new_body: "Server_new e opts = Server_body e opts"
  by (simp add: Server_new.simps Server.simps split: sum.splits)

lemma demoServer_constructed: "Server_new demoEnv None = Inr demoServer"
  by (simp add: Server_new_body Server_body_def configure_def mountApplication_def
      mountStatic_def openConnectors_def demoEnv_def demoServer_def noOptions_def stringOr_def
      present_def getContext_def lookupContext_def inheritedProperty_def contextKey_def
      defaultContextOptions_def newServletContextHandler_def onHandler_def
      sessionCookieConfig_def stringOrNull_def Let_def)

lemma registryOk_demoServer: "registryOk demoServer"
  by (simp add: registryOk_def demoServer_def)

lemma keysOwn_demoServer: "keysOwn demoServer"
  by (simp add: keysOwn_def demoServer_def inheritedProperty_def)

lemma length_onHandler [simp]: "length (j_contexts (onHandler cx f j)) = length (j_contexts j)"
  by (simp add: onHandler_def)

lemma lookupContext_own:
  "map_of m key = Some h \<Longrightarrow> lookupContext m key = Some (Handler h)"
  by (simp add: lookupContext_def)

lemma lookupContext_None:
  "lookupContext m key = None \<longleftrightarrow> map_of m key = None \<and> \<not> inheritedProperty key"
  by (simp add: lookupContext_def split: option.splits)

lemma getContext_hit:
  "lookupContext (contextMap s) (contextKey v p) = Some cx \<Longrightarrow>
     getContext p v opts s = (Context cx, s)"
  by (simp add: getContext_def)

lemma getContext_miss:
  assumes "lookupContext (contextMap s) (contextKey v p) = None"
  shows "getHandler (fst (getContext p v opts s)) = Handler (length (j_contexts (jetty s)))"
    and "contextMap (snd (getContext p v opts s)) =
           contextMap s @ [(contextKey v p, length (j_contexts (jetty s)))]"
    and "length (j_contexts (jetty (snd (getContext p v opts s)))) =
           Suc (length (j_contexts (jetty s)))"
    and "defaultContext (snd (getContext p v opts s)) = defaultContext s"
  using assms by (simp_all add: getContext_def newServletContextHandler_def Let_def)

text \<open>At a key that names an inherited property nothing is created or registered.\<close>

lemma getContext_inherited:
  assumes "map_of (contextMap s) (contextKey v p) = None"
      and "inheritedProperty (contextKey v p)"
  shows "getContext p v opts s = (Context (Inherited (contextKey v p)), s)"
  using assms by (simp add: getContext_def lookupContext_def)

lemma getContext_registers:
  "lookupContext (contextMap (snd (getContext p v opts s))) (contextKey v p) =
     Some (getHandler (fst (getContext p v opts s)))"
proof (cases "lookupContext (contextMap s) (contextKey v p)")
  case None
  then have "map_of (contextMap s) (contextKey v p) = None"
    by (simp add: lookupContext_None)
  then show ?thesis
    by (simp add: getContext_miss(1,2) [OF None] lookupContext_def map_add_def)
next
  case (Some cx)
  then show ?thesis by (simp add: getContext_hit)
qed

lemma getContext_same_key:
  assumes "contextKey v2 p2 = contextKey v1 p1"
  shows "getContext p2 v2 opts2 (snd (getContext p1 v1 opts1 s)) = getContext p1 v1 opts1 s"
proof -
  have "lookupContext (contextMap (snd (getContext p1 v1 opts1 s))) (contextKey v2 p2) =
          Some (getHandler (fst (getContext p1 v1 opts1 s)))"
    using assms by (simp add: getContext_registers)
  then have "getContext p2 v2 opts2 (snd (getContext p1 v1 opts1 s)) =
          (Context (getHandler (fst (getContext p1 v1 opts1 s))), snd (getContext p1 v1 opts1 s))"
    by (rule getContext_hit)
  then show ?thesis by (simp add: prod_eq_iff)
qed

lemma getContext_keeps:
  assumes "lookupContext (contextMap s) k = Some cx"
  shows "lookupContext (contextMap (snd (getContext p v opts s))) k = Some cx"
proof (cases "lookupContext (contextMap s) (contextKey v p)")
  case None
  then have n: "map_of (contextMap s) (contextKey v p) = None" "\<not> inheritedProperty (contextKey v p)"
    by (simp_all add: lookupContext_None)
  show ?thesis
  proof (cases "k = contextKey v p")
    case True
    with assms None show ?thesis by simp
  next
    case False
    have "map_of (contextMap (snd (getContext p v opts s))) k = map_of (contextMap s) k"
      using False by (simp add: getContext_miss(2) [OF None] map_add_def split: option.splits)
    with assms show ?thesis by (simp add: lookupContext_def)
  qed
next
  case (Some cx')
  with assms show ?thesis by (simp add: getContext_hit)
qed

lemma registryOk_getContext:
  assumes "registryOk s"
  shows "registryOk (snd (getContext p v opts s))"
proof (cases "lookupContext (contextMap s) (contextKey v p)")
  case None
  have "\<forall>kv \<in> set (contextMap s). snd kv < length (j_contexts (jetty s))"
    using assms by (simp add: registryOk_def list_all_iff)
  then have "length (j_contexts (jetty s)) \<notin> snd ` set (contextMap s)" by auto
  with assms None show ?thesis
    by (auto simp: registryOk_def getContext_miss list_all_iff less_Suc_eq)
next
  case (Some cx)
  with assms show ?thesis by (simp add: getContext_hit)
qed

lemma keysOwn_getContext:
  assumes "keysOwn s"
  shows "keysOwn (snd (getContext p v opts s))"
proof (cases "lookupContext (contextMap s) (contextKey v p)")
  case None
  with assms show ?thesis
    by (simp add: keysOwn_def getContext_miss lookupContext_None)
next
  case (Some cx)
  with assms show ?thesis by (simp add: getContext_hit)
qed

lemma keysOwn_registered:
  assumes "keysOwn s" "map_of (contextMap s) k = Some cx"
  shows "\<not> inheritedProperty k"
proof -
  from assms(2) have "(k, cx) \<in> set (contextMap s)" by (rule map_of_SomeD)
  with assms(1) show ?thesis by (auto simp: keysOwn_def list_all_iff)
qed

lemma registryOk_Server_start: "registryOk (Server_start s) = registryOk s"
  by (simp add: registryOk_def Server_start_def jetty_start_def)

lemma registryOk_Server_stop: "registryOk (Server_stop s)"
  by (simp add: registryOk_def Server_stop_def)

lemma keysOwn_Server_start: "keysOwn (Server_start s) = keysOwn s"
  by (simp add: keysOwn_def Server_start_def)

lemma keysOwn_Server_stop: "keysOwn (Server_stop s)"
  by (simp add: keysOwn_def Server_stop_def)

lemma registry_injective:
  assumes "registryOk s" "map_of (contextMap s) k1 = Some cx" "map_of (contextMap s) k2 = Some cx"
  shows "k1 = k2"
proof -
  from assms(2,3) have "(k1, cx) \<in> set (contextMap s)" "(k2, cx) \<in> set (contextMap s)"
    by (auto dest: map_of_SomeD)
  moreover from assms(1) have "inj_on snd (set (contextMap s))"
    by (simp add: registryOk_def distinct_map)
  ultimately show ?thesis by (fastforce simp: inj_on_def)
qed

lemma lookup_injective:
  assumes "registryOk s"
      and "lookupContext (contextMap s) k1 = Some cx" "lookupContext (contextMap s) k2 = Some cx"
  shows "k1 = k2"
proof (cases cx)
  case (Handler h)
  with assms(2,3) have "map_of (contextMap s) k1 = Some h" "map_of (contextMap s) k2 = Some h"
    by (auto simp: lookupContext_def split: option.splits if_splits)
  with assms(1) show ?thesis by (rule registry_injective)
next
  case (Inherited k)
  with assms(2,3) show ?thesis
    by (auto simp: lookupContext_def split: option.splits if_splits)
qed

lemma registry_in_range:
  assumes "registryOk s" "map_of (contextMap s) k = Some cx"
  shows "cx < length (j_contexts (jetty s))"
proof -
  from assms(2) have "(k, cx) \<in> set (contextMap s)" by (rule map_of_SomeD)
  with assms(1) show ?thesis by (auto simp: registryOk_def list_all_iff)
qed

lemma distinct_keys_distinct_handlers:
  assumes "registryOk s" "contextKey v1 p1 \<noteq> contextKey v2 p2"
  shows "getHandler (fst (getContext p1 v1 o1 s)) \<noteq>
         getHandler (fst (getContext p2 v2 o2 (snd (getContext p1 v1 o1 s))))"
proof
  let ?s1 = "snd (getContext p1 v1 o1 s)"
  let ?s2 = "snd (getContext p2 v2 o2 ?s1)"
  assume eq: "getHandler (fst (getContext p1 v1 o1 s)) = getHandler (fst (getContext p2 v2 o2 ?s1))"
  have ok: "registryOk ?s2" using assms(1) by (simp add: registryOk_getContext)
  have a: "lookupContext (contextMap ?s2) (contextKey v1 p1) =
             Some (getHandler (fst (getContext p1 v1 o1 s)))"
    by (rule getContext_keeps) (rule getContext_registers)
  have b: "lookupContext (contextMap ?s2) (contextKey v2 p2) =
             Some (getHandler (fst (getContext p2 v2 o2 ?s1)))"
    by (rule getContext_registers)
  from lookup_injective [OF ok a] b eq have "contextKey v1 p1 = contextKey v2 p2" by simp
  with assms(2) show False by contradiction
qed

lemma parseInt10_Undefined: "parseInt10 Undefined = None"
  by (simp add: parseInt10_def isStrWhiteSpaceChar_def isDecimalDigit_def)

lemma parseInt10_zero: "parseInt10 (JNum 0) = Some 0"
  by (simp add: parseInt10_def showInt_def showNat.simps digitChar_def isStrWhiteSpaceChar_def
      isDecimalDigit_def decimalValue_def digitValue_def)

lemma conn_demoSocket: "conn demoSocket = Some 0"
  by (simp add: demoSocket_def fireOpen_def newSocket_def addListener_def)

section \<open>Facts about the constructor\<close>

lemma onHandler_frame [simp]:
  "j_connectors (onHandler cx f j) = j_connectors j"
  "j_running (onHandler cx f j) = j_running j"
  "j_calls (onHandler cx f j) = j_calls j"
  by (simp_all add: onHandler_def)

lemma cx_addServlet_frame:
  assumes "cx_addServlet h p cx s = Inr s'"
  shows "contextMap s' = contextMap s \<and> defaultContext s' = defaultContext s \<and>
         length (j_contexts (jetty s')) = length (j_contexts (jetty s)) \<and>
         j_connectors (jetty s') = j_connectors (jetty s) \<and>
         j_running (jetty s') = j_running (jetty s)"
  using assms by (auto simp: cx_addServlet_def split: cxref.splits)

lemma serveApplication_frame:
  assumes "serveApplication a c s = Inr s'"
  shows "contextMap s' = contextMap s \<and> defaultContext s' = defaultContext s \<and>
         length (j_contexts (jetty s')) = length (j_contexts (jetty s)) \<and>
         j_connectors (jetty s') = j_connectors (jetty s) \<and>
         j_running (jetty s') = j_running (jetty s)"
  using assms unfolding serveApplication_def Let_def by (rule cx_addServlet_frame)

lemma serveStatic_frame:
  assumes "serveStatic g d c s = Inr s'"
  shows "contextMap s' = contextMap s \<and> defaultContext s' = defaultContext s \<and>
         length (j_contexts (jetty s')) = length (j_contexts (jetty s)) \<and>
         j_connectors (jetty s') = j_connectors (jetty s) \<and>
         j_running (jetty s') = j_running (jetty s)"
proof (cases "getHandler c")
  case (Handler h)
  define s1 where "s1 = s\<lparr>jetty := onHandler h
      (\<lambda>hd. hd\<lparr>h_resourceBase := Some (case g d of Some repoPath \<Rightarrow> repoPath | None \<Rightarrow> d)\<rparr>)
      (jetty s)\<rparr>"
  from assms Handler
  have "cx_addServlet \<lparr>servlet = DefaultServlet, initParameters = []\<rparr> ''/*'' (Handler h) s1 = Inr s'"
    by (simp add: serveStatic_def Let_def s1_def)
  from cx_addServlet_frame [OF this] show ?thesis
    by (simp add: s1_def)
next
  case (Inherited k)
  with assms show ?thesis by (simp add: serveStatic_def Let_def)
qed

lemma getContext_frame [simp]:
  "defaultContext (snd (getContext p v opts s)) = defaultContext s"
  "j_connectors (jetty (snd (getContext p v opts s))) = j_connectors (jetty s)"
  "j_running (jetty (snd (getContext p v opts s))) = j_running (jetty s)"
  by (simp_all add: getContext_def newServletContextHandler_def Let_def split: option.splits)

lemma invariants_frame:
  assumes "contextMap s' = contextMap s"
      and "length (j_contexts (jetty s')) = length (j_contexts (jetty s))"
  shows "registryOk s' = registryOk s" and "keysOwn s' = keysOwn s"
  using assms by (simp_all add: registryOk_def keysOwn_def)

lemma mountApplication_frame:
  assumes "mountApplication options dc s = Inr s'"
  shows "contextMap s' = contextMap s \<and> defaultContext s' = defaultContext s \<and>
         length (j_contexts (jetty s')) = length (j_contexts (jetty s)) \<and>
         j_connectors (jetty s') = j_connectors (jetty s) \<and>
         j_running (jetty s') = j_running (jetty s)"
proof (cases "app options")
  case (Some f)
  with assms have "serveApplication (AppFunction f) dc s = Inr s'"
    by (simp add: mountApplication_def)
  then show ?thesis by (rule serveApplication_frame)
next
  case None
  show ?thesis
  proof (cases "present (appModule options) \<and> present (appName options)")
    case True
    with assms None
    have "serveApplication (AppObject (appModule options) (appName options)) dc s = Inr s'"
      by (simp add: mountApplication_def)
    then show ?thesis by (rule serveApplication_frame)
  next
    case False
    with assms None have "s' = s" by (auto simp: mountApplication_def)
    then show ?thesis by simp
  qed
qed

lemma mountStatic_frame:
  assumes "mountStatic e options s = Inr s'"
  shows "defaultContext s' = defaultContext s \<and>
         j_connectors (jetty s') = j_connectors (jetty s) \<and>
         j_running (jetty s') = j_running (jetty s) \<and>
         (registryOk s \<longrightarrow> registryOk s') \<and> (keysOwn s \<longrightarrow> keysOwn s') \<and>
         (\<forall>k cx. lookupContext (contextMap s) k = Some cx \<longrightarrow>
                  lookupContext (contextMap s') k = Some cx)"
proof (cases "present (staticDir options)")
  case False
  with assms show ?thesis by (simp add: mountStatic_def)
next
  case True
  define g where "g = getContext (stringOr (staticMountpoint options) ''/static'')
                        (virtualHost options) None s"
  from assms True
  have st: "serveStatic (getRepository e)
              (resolveId e (appModule options) (stringOr (staticDir options) [])) (fst g) (snd g) = Inr s'"
    by (simp add: mountStatic_def g_def split_beta)
  note f = serveStatic_frame [OF st]
  have "registryOk s' = registryOk (snd g)"
    by (rule invariants_frame(1)) (simp_all add: f)
  moreover have "keysOwn s' = keysOwn (snd g)"
    by (rule invariants_frame(2)) (simp_all add: f)
  ultimately show ?thesis
    using f by (simp add: g_def registryOk_getContext keysOwn_getContext getContext_keeps)
qed

lemma Server_body_constructed:
  assumes "Server_body e opts = Inr s"
  shows "registryOk s \<and> keysOwn s \<and>
         (\<exists>dc. defaultContext s = Some dc \<and>
           lookupContext (contextMap s)
             (contextKey (virtualHost (case opts of None \<Rightarrow> noOptions | Some given \<Rightarrow> given))
                (stringOr (mountpoint (case opts of None \<Rightarrow> noOptions | Some given \<Rightarrow> given)) ''/'')) =
           Some (getHandler dc)) \<and>
         list_all (\<lambda>c. c) (j_connectors (jetty s)) \<and>
         length (j_connectors (jetty s)) =
           configConnectors e
             (stringOr (jettyConfig (case opts of None \<Rightarrow> noOptions | Some given \<Rightarrow> given))
                ''config/jetty.xml'') \<and>
         \<not> j_running (jetty s)"
proof -
  define options where "options = (case opts of None \<Rightarrow> noOptions | Some given \<Rightarrow> given)"
  define jettyFile where "jettyFile = stringOr (jettyConfig options) ''config/jetty.xml''"
  define key where "key = contextKey (virtualHost options) (stringOr (mountpoint options) ''/'')"
  define g where "g = getContext (stringOr (mountpoint options) ''/'') (virtualHost options)
                        (Some (defaultContextOptions options)) (configure e options jettyFile)"
  define s2 where "s2 = (snd g)\<lparr>defaultContext := Some (fst g)\<rparr>"
  from assms obtain s3 s4 where
    m3: "mountApplication options (fst g) s2 = Inr s3" and
    m4: "mountStatic e options s3 = Inr s4" and
    s: "s = openConnectors s4"
    unfolding s2_def g_def jettyFile_def options_def
    by (auto simp: Server_body_def Let_def split_beta split: if_splits sum.splits)
  have p0: "registryOk (configure e options jettyFile)" "keysOwn (configure e options jettyFile)"
    by (simp_all add: configure_def registryOk_def keysOwn_def Let_def)
  have c0: "j_connectors (jetty (configure e options jettyFile)) =
              replicate (configConnectors e jettyFile) False"
           "\<not> j_running (jetty (configure e options jettyFile))"
    by (simp_all add: configure_def Let_def)
  have p2: "registryOk s2" "keysOwn s2"
    using p0 registryOk_getContext [of "configure e options jettyFile"]
      keysOwn_getContext [of "configure e options jettyFile"]
    by (simp_all add: s2_def g_def registryOk_def keysOwn_def)
  have m2: "lookupContext (contextMap s2) key = Some (getHandler (fst g))"
    using getContext_registers
      [of "stringOr (mountpoint options) ''/''" "virtualHost options"
          "Some (defaultContextOptions options)" "configure e options jettyFile"]
    by (simp add: s2_def g_def key_def)
  have c2: "j_connectors (jetty s2) = replicate (configConnectors e jettyFile) False"
           "\<not> j_running (jetty s2)" "defaultContext s2 = Some (fst g)"
    using c0 by (simp_all add: s2_def g_def)
  note f3 = mountApplication_frame [OF m3]
  have "registryOk s3 = registryOk s2"
    by (rule invariants_frame(1)) (simp_all add: f3)
  moreover have "keysOwn s3 = keysOwn s2"
    by (rule invariants_frame(2)) (simp_all add: f3)
  ultimately have p3: "registryOk s3" "keysOwn s3"
    using p2 by simp_all
  have m3': "lookupContext (contextMap s3) key = Some (getHandler (fst g))"
    using m2 f3 by simp
  note f4 = mountStatic_frame [OF m4]
  have p4: "registryOk s4" "keysOwn s4"
    using p3 f4 by simp_all
  have m4': "lookupContext (contextMap s4) key = Some (getHandler (fst g))"
    using m3' f4 by simp
  have c4: "j_connectors (jetty s4) = replicate (configConnectors e jettyFile) False"
           "\<not> j_running (jetty s4)" "defaultContext s4 = Some (fst g)"
    using c2 f3 f4 by simp_all
  show ?thesis
    using p4 m4' c4 unfolding s key_def jettyFile_def options_def
    by (simp add: openConnectors_def registryOk_def keysOwn_def list_all_iff)
qed

text \<open>
  A mount point that names an inherited property: the default context wraps the inherited
  function, nothing is registered, and mounting an application on it throws.
\<close>

lemma Server_new_inherited_mountpoint:
  "map_sum id (\<lambda>s. (defaultContext s, contextMap s, j_contexts (jetty s)))
     (Server_new demoEnv (Some (noOptions\<lparr>mountpoint := Some ''toString''\<rparr>))) =
     Inr (Some (Context (Inherited ''toString'')), [], [])"
  "Server_new demoEnv (Some (noOptions\<lparr>mountpoint := Some ''toString'', app := Some 0\<rparr>)) =
     Inl TypeError"
  by (simp_all add: Server_new_body Server_body_def configure_def mountApplication_def
      mountStatic_def openConnectors_def demoEnv_def noOptions_def stringOr_def present_def
      getContext_def lookupContext_def inheritedProperty_def contextKey_def
      serveApplication_def cx_addServlet_def Let_def)

section \<open>Facts about configuration errors\<close>

lemma Server_new_missing_resource:
  assumes "\<not> resourceExists e (stringOr (jettyConfig options) ''config/jetty.xml'')"
  shows "Server_new e (Some options) =
           Inl (Error (''Resource \"'' @ stringOr (jettyConfig options) ''config/jetty.xml'' @ ''\" not found''))"
  using assms by (simp add: Server_new_body Server_body_def Let_def)

lemma parseOptions_rejects_port:
  assumes "parse (tl args) = Inr options"
      and "truthy (port options)" "\<not> isFinite (port options)"
      and "parseInt10 (port options) = None \<or> (\<exists>p. parseInt10 (port options) = Some p \<and> p < 1)"
  shows "parseOptions parse args = Inl (invalidPort (port options))"
  using assms by (auto simp: parseOptions_def)

lemma parseOptions_skips_finite_port:
  assumes "parse (tl args) = Inr options" and "isFinite (port options)"
      and "helpOption options \<noteq> Some True"
  shows "parseOptions parse args = Inr options"
  using assms by (simp add: parseOptions_def)

section \<open>The claims\<close>

text \<open>
  C1. On the channel as \<^verbatim>\<open>doWebSocketConnect\<close> builds it, before any "open" event,
  \<^verbatim>\<open>close()\<close>, \<^verbatim>\<open>send(msg)\<close> and \<^verbatim>\<open>sendBinary(bytes, offset, length)\<close> return
  normally and leave the transport untouched. \<^verbatim>\<open>isOpen()\<close> returns \<^verbatim>\<open>undefined\<close>,
  the value of \<^verbatim>\<open>conn\<close>, which is falsy but is not the boolean \<^verbatim>\<open>false\<close> that the
  claim and the \<^verbatim>\<open>@return {Boolean}\<close> annotation promise.
\<close>

theorem fresh_channel_isOpen_undefined:
  "close newSocket t = (Inr (), t) \<and>
   send newSocket msg t = (Inr (), t) \<and>
   sendBinary newSocket bytearray offset len t = (Inr (), t) \<and>
   isOpen newSocket t = Undefined \<and>
   isOpen newSocket t \<noteq> JBool False \<and>
   \<not> truthy (isOpen newSocket t)"
  by (simp add: newSocket_def addListener_def close_def send_def sendBinary_def isOpen_def)

text \<open>
  C2. A second \<^verbatim>\<open>getContext\<close> with the same path and virtual hosts returns the Context
  of the first call, whatever options it is given, and leaves the server as the first call
  left it.
\<close>

theorem getContext_idempotent:
  "getContext path virtualHosts options2 (snd (getContext path virtualHosts options1 s)) =
     getContext path virtualHosts options1 s"
  by (rule getContext_same_key) (rule refl)

text \<open>
  C3. The key is \<^verbatim>\<open>String(virtualHosts) + path\<close> when \<^verbatim>\<open>virtualHosts\<close> is truthy and
  \<^verbatim>\<open>path\<close> otherwise. On a server whose registry is well formed, \<^verbatim>\<open>"/a"\<close> under
  \<^verbatim>\<open>"host1"\<close> and under \<^verbatim>\<open>"host2"\<close> are two Contexts, while \<^verbatim>\<open>"/a"\<close> with
  \<^verbatim>\<open>undefined\<close> and with \<^verbatim>\<open>""\<close> is one Context.
\<close>

theorem contextKey_hosts_distinct_falsy_same:
  assumes "registryOk s"
  shows "contextKey (JStr ''host1'') ''/a'' = ''host1/a'' \<and>
         contextKey (JStr ''host2'') ''/a'' = ''host2/a'' \<and>
         contextKey Undefined ''/a'' = ''/a'' \<and>
         contextKey (JStr []) ''/a'' = ''/a'' \<and>
         getHandler (fst (getContext ''/a'' (JStr ''host1'') opts s)) \<noteq>
           getHandler (fst (getContext ''/a'' (JStr ''host2'') opts
                             (snd (getContext ''/a'' (JStr ''host1'') opts s)))) \<and>
         getContext ''/a'' (JStr []) opts (snd (getContext ''/a'' Undefined opts s)) =
           getContext ''/a'' Undefined opts s"
proof -
  have k: "contextKey (JStr ''host1'') ''/a'' \<noteq> contextKey (JStr ''host2'') ''/a''"
    by (simp add: contextKey_def)
  have e: "contextKey (JStr []) ''/a'' = contextKey Undefined ''/a''"
    by (simp add: contextKey_def)
  show ?thesis
    using distinct_keys_distinct_handlers [OF assms k] getContext_same_key [OF e]
    by (simp add: contextKey_def)
qed

theorem contextKey_hosts_distinct_falsy_same_witness:
  "registryOk demoServer \<and>
   getHandler (fst (getContext ''/a'' (JStr ''host1'') None demoServer)) \<noteq>
     getHandler (fst (getContext ''/a'' (JStr ''host2'') None
                       (snd (getContext ''/a'' (JStr ''host1'') None demoServer)))) \<and>
   getContext ''/a'' (JStr []) None (snd (getContext ''/a'' Undefined None demoServer)) =
     getContext ''/a'' Undefined None demoServer"
  using contextKey_hosts_distinct_falsy_same [OF registryOk_demoServer, of None]
  by (simp add: registryOk_demoServer)

text \<open>
  C4, as amended. With the transport reference set, \<^verbatim>\<open>sendBinary(bytes)\<close> passes the
  whole array from offset 0, and a length that does not parse to a number falls back to
  \<^verbatim>\<open>bytearray.length\<close>, the full length of the array whatever the offset is.
\<close>

theorem sendBinary_default_bounds:
  assumes "conn sock = Some c"
  shows "sendBinary sock bytearray Undefined Undefined t =
           conn_sendMessage c (BinaryFrame bytearray 0 (int (length bytearray))) t \<and>
         (parseInt10 len = None \<longrightarrow>
            sendBinary sock bytearray offset len t =
              conn_sendMessage c
                (BinaryFrame bytearray (numberOr (parseInt10 offset) 0) (int (length bytearray))) t)"
  using assms by (simp add: sendBinary_def numberOr_def parseInt10_Undefined)

theorem sendBinary_default_bounds_witness:
  "conn demoSocket = Some 0 \<and>
   parseInt10 (JStr ''abc'') = None \<and>
   sendBinary demoSocket [1, 2, 3] Undefined Undefined demoTransport =
     (Inr (), [\<lparr>c_open = True, c_sent = [BinaryFrame [1, 2, 3] 0 3]\<rparr>]) \<and>
   sendBinary demoSocket [1, 2, 3] (JStr ''x'') (JStr ''abc'') demoTransport =
     (Inr (), [\<lparr>c_open = True, c_sent = [BinaryFrame [1, 2, 3] 0 3]\<rparr>])"
proof -
  have p: "parseInt10 (JStr ''abc'') = None" "parseInt10 (JStr ''x'') = None"
    by (simp_all add: parseInt10_def isStrWhiteSpaceChar_def isDecimalDigit_def)
  show ?thesis
    using sendBinary_default_bounds [OF conn_demoSocket, of "[1, 2, 3]" demoTransport "JStr ''abc''" "JStr ''x''"]
    by (simp add: p conn_demoSocket numberOr_def conn_sendMessage_def conn_isOpen_def demoTransport_def)
qed

text \<open>
  C4 as stated fails: with offset 1 and a non-numeric length, a 4-byte array is sent with
  length 4, not with the 3 bytes that remain after the offset.
\<close>

theorem sendBinary_remaining_length_counterexample:
  "sendBinary \<lparr>conn = Some 0, listeners = []\<rparr> [1, 2, 3, 4] (JNum 1) (JStr ''abc'')
       [\<lparr>c_open = True, c_sent = []\<rparr>] =
     (Inr (), [\<lparr>c_open = True, c_sent = [BinaryFrame [1, 2, 3, 4] 1 4]\<rparr>]) \<and>
   sendBinary \<lparr>conn = Some 0, listeners = []\<rparr> [1, 2, 3, 4] (JNum 1) (JStr ''abc'')
       [\<lparr>c_open = True, c_sent = []\<rparr>] \<noteq>
     (Inr (), [\<lparr>c_open = True,
                c_sent = [BinaryFrame [1, 2, 3, 4] 1 (int (length [1, 2, 3, 4 :: 8 word]) - 1)]\<rparr>])"
  by (simp add: sendBinary_def numberOr_def parseInt10_def showInt_def showNat.simps digitChar_def
      isStrWhiteSpaceChar_def isDecimalDigit_def decimalValue_def digitValue_def
      conn_sendMessage_def conn_isOpen_def)

text \<open>
  C5. Whenever \<^verbatim>\<open>doWebSocketConnect\<close> hands a socket back to the transport, that
  socket is a new object, with no transport reference yet and the "open" listener in place;
  and if \<^verbatim>\<open>onconnect\<close> is a function, it has by then been run once on that socket, the
  request and the protocol, and the state at return is the state it left.
\<close>

theorem doWebSocketConnect_onconnect_before_return:
  assumes "doWebSocketConnect onconnect request protocol w = (Inr (Impl k), w')"
  shows "k = length (sockets w) \<and>
         conn newSocket = None \<and>
         listeners newSocket = [(''open'', SetConn)] \<and>
         (case onconnect of
            Function f \<Rightarrow> f k request protocol (w\<lparr>sockets := sockets w @ [newSocket]\<rparr>) = (None, w')
          | NotAFunction \<Rightarrow> w' = w\<lparr>sockets := sockets w @ [newSocket]\<rparr>)"
  using assms
  by (auto simp: doWebSocketConnect_def Let_def newSocket_def addListener_def
      split: callback.splits prod.splits option.splits)

theorem doWebSocketConnect_onconnect_before_return_witness:
  "doWebSocketConnect demoCallback () () demoWorld =
     (Inr (Impl 0), \<lparr>sockets = [newSocket], appState = 1\<rparr>) \<and>
   0 = length (sockets demoWorld) \<and>
   (case demoCallback of
      Function f \<Rightarrow> f 0 () () (demoWorld\<lparr>sockets := sockets demoWorld @ [newSocket]\<rparr>) =
                      (None, \<lparr>sockets = [newSocket], appState = 1\<rparr>)
    | NotAFunction \<Rightarrow> False)"
proof -
  have h: "doWebSocketConnect demoCallback () () demoWorld =
             (Inr (Impl 0), \<lparr>sockets = [newSocket], appState = 1\<rparr>)"
    by (simp add: doWebSocketConnect_def demoCallback_def demoWorld_def)
  show ?thesis
    using h doWebSocketConnect_onconnect_before_return [OF h]
    by (simp add: demoCallback_def demoWorld_def)
qed

text \<open>
  C6. \<^verbatim>\<open>stop()\<close> leaves \<^verbatim>\<open>contextMap\<close> empty. On a server whose registry is
  well formed and whose keys are its own, a key that was registered, and for which
  \<^verbatim>\<open>getContext\<close> returned the handler \<open>old\<close> before, gets a newly constructed
  handler afterwards: the next one in Jetty's collection, different from \<open>old\<close>.
\<close>

theorem stop_clears_contextMap:
  assumes "registryOk s" and "keysOwn s"
      and "map_of (contextMap s) (contextKey virtualHosts path) = Some old"
  shows "contextMap (Server_stop s) = [] \<and>
         fst (getContext path virtualHosts opts s) = Context (Handler old) \<and>
         getHandler (fst (getContext path virtualHosts opts (Server_stop s))) =
           Handler (length (j_contexts (jetty s))) \<and>
         getHandler (fst (getContext path virtualHosts opts (Server_stop s))) \<noteq> Handler old \<and>
         length (j_contexts (jetty (snd (getContext path virtualHosts opts (Server_stop s))))) =
           Suc (length (j_contexts (jetty s)))"
proof -
  have own: "\<not> inheritedProperty (contextKey virtualHosts path)"
    using assms(2,3) by (rule keysOwn_registered)
  have e: "lookupContext (contextMap (Server_stop s)) (contextKey virtualHosts path) = None"
    using own by (simp add: Server_stop_def lookupContext_def)
  have h: "lookupContext (contextMap s) (contextKey virtualHosts path) = Some (Handler old)"
    using assms(3) by (rule lookupContext_own)
  have l: "length (j_contexts (jetty (Server_stop s))) = length (j_contexts (jetty s))"
    by (simp add: Server_stop_def jetty_stop_def)
  have r: "old < length (j_contexts (jetty s))"
    using assms(1,3) by (rule registry_in_range)
  show ?thesis
    using r l getContext_miss(1,3) [OF e, of opts] getContext_hit [OF h, of opts]
    by (simp add: Server_stop_def)
qed

theorem stop_clears_contextMap_witness:
  "registryOk demoServer \<and> keysOwn demoServer \<and>
   map_of (contextMap demoServer) (contextKey Undefined ''/'') = Some 0 \<and>
   contextMap (Server_stop demoServer) = [] \<and>
   fst (getContext ''/'' Undefined None demoServer) = Context (Handler 0) \<and>
   getHandler (fst (getContext ''/'' Undefined None (Server_stop demoServer))) = Handler 1"
proof -
  have m: "map_of (contextMap demoServer) (contextKey Undefined ''/'') = Some 0"
    by (simp add: demoServer_def contextKey_def)
  have n: "length (j_contexts (jetty demoServer)) = 1"
    by (simp add: demoServer_def)
  show ?thesis
    using stop_clears_contextMap [OF registryOk_demoServer keysOwn_demoServer m, of None]
    by (simp add: registryOk_demoServer keysOwn_demoServer m n)
qed

text \<open>
  C7. After a \<^verbatim>\<open>start()\<close> that returned, a second \<^verbatim>\<open>start()\<close> returns the same
  server and changes nothing: not the server (so Jetty sees no second
  \<^verbatim>\<open>start\<close>), not the application state (so the hook did not run again). The same
  holds for \<^verbatim>\<open>stop()\<close> after a \<^verbatim>\<open>stop()\<close> that returned.
\<close>

theorem daemon_start_stop_idempotent:
  "(start require d = (Inr r, d') \<longrightarrow> start require d' = (Inr r, d')) \<and>
   (stop require d = (Inr r, d') \<longrightarrow> stop require d' = (Inr r, d'))"
proof (intro conjI impI)
  assume a: "start require d = (Inr r, d')"
  show "start require d' = (Inr r, d')"
  proof (cases "m_started d")
    case True
    with a show ?thesis by (auto simp: start_def)
  next
    case False
    with a have "m_started d' \<and> r = m_server d'"
      by (auto simp: start_def callHook_def Let_def
          split: option.splits sum.splits prod.splits)
    then show ?thesis by (simp add: start_def)
  qed
next
  assume a: "stop require d = (Inr r, d')"
  show "stop require d' = (Inr r, d')"
  proof (cases "m_started d")
    case False
    with a show ?thesis by (auto simp: stop_def)
  next
    case True
    with a have "\<not> m_started d' \<and> r = m_server d'"
      by (auto simp: stop_def callHook_def Let_def
          split: option.splits sum.splits prod.splits)
    then show ?thesis by (simp add: stop_def)
  qed
qed

theorem daemon_start_stop_idempotent_witness:
  "start demoRequire demoDaemon =
     (Inr (Some (Server_start demoServer)),
      demoDaemon\<lparr>m_server := Some (Server_start demoServer), m_started := True, m_appState := 1\<rparr>) \<and>
   start demoRequire
     (demoDaemon\<lparr>m_server := Some (Server_start demoServer), m_started := True, m_appState := 1\<rparr>) =
     (Inr (Some (Server_start demoServer)),
      demoDaemon\<lparr>m_server := Some (Server_start demoServer), m_started := True, m_appState := 1\<rparr>) \<and>
   stop demoRequire
     (demoDaemon\<lparr>m_server := Some (Server_start demoServer), m_started := True, m_appState := 1\<rparr>) =
     (Inr (Some (Server_stop (Server_start demoServer))),
      demoDaemon\<lparr>m_server := Some (Server_stop (Server_start demoServer)), m_started := False,
                  m_appState := 11\<rparr>) \<and>
   stop demoRequire
     (demoDaemon\<lparr>m_server := Some (Server_stop (Server_start demoServer)), m_started := False,
                  m_appState := 11\<rparr>) =
     (Inr (Some (Server_stop (Server_start demoServer))),
      demoDaemon\<lparr>m_server := Some (Server_stop (Server_start demoServer)), m_started := False,
                  m_appState := 11\<rparr>) \<and>
   j_calls (jetty (Server_stop (Server_start demoServer))) = [JStart, JStop]"
proof -
  let ?d1 = "demoDaemon\<lparr>m_server := Some (Server_start demoServer), m_started := True, m_appState := 1\<rparr>"
  let ?d2 = "demoDaemon\<lparr>m_server := Some (Server_stop (Server_start demoServer)), m_started := False,
                        m_appState := 11\<rparr>"
  have a: "start demoRequire demoDaemon = (Inr (Some (Server_start demoServer)), ?d1)"
    by (simp add: start_def demoDaemon_def demoRequire_def requireApp_def callHook_def)
  have b: "stop demoRequire ?d1 = (Inr (Some (Server_stop (Server_start demoServer))), ?d2)"
    by (simp add: stop_def demoDaemon_def demoRequire_def requireApp_def callHook_def)
  show ?thesis
    using a b
      daemon_start_stop_idempotent [of demoRequire demoDaemon "Some (Server_start demoServer)" ?d1]
      daemon_start_stop_idempotent [of demoRequire ?d1 "Some (Server_stop (Server_start demoServer))" ?d2]
    by (simp add: Server_stop_def Server_start_def jetty_stop_def jetty_start_def demoServer_def)
qed

text \<open>
  C8. A missing configuration resource makes the constructor throw before anything is
  created (see \<open>Server_new_missing_resource\<close>), and \<^verbatim>\<open>parseOptions\<close> throws on
  \<^verbatim>\<open>"abc"\<close>. But the port check is guarded by \<^verbatim>\<open>!isFinite(options.port)\<close>, so a
  port that is a finite numeral is never checked: \<^verbatim>\<open>"0"\<close> and \<^verbatim>\<open>"-5"\<close> parse to
  numbers below 1 and are returned unchanged instead of being rejected.
\<close>

theorem parseOptions_accepts_port_below_one:
  "parseInt10 (JStr ''0'') = Some 0 \<and>
   parseOptions (\<lambda>a. Inr (noOptions\<lparr>port := JStr ''0''\<rparr>)) [''httpserver'', ''-p'', ''0''] =
     Inr (noOptions\<lparr>port := JStr ''0''\<rparr>) \<and>
   parseInt10 (JStr ''-5'') = Some (- 5) \<and>
   parseOptions (\<lambda>a. Inr (noOptions\<lparr>port := JStr ''-5''\<rparr>)) [''httpserver'', ''-p'', ''-5''] =
     Inr (noOptions\<lparr>port := JStr ''-5''\<rparr>) \<and>
   parseOptions (\<lambda>a. Inr (noOptions\<lparr>port := JStr ''abc''\<rparr>)) [''httpserver'', ''-p'', ''abc''] =
     Inl (Thrown ''Invalid value for port: abc'')"
proof -
  have f: "stringIsFinite ''0''" "stringIsFinite ''-5''" "\<not> stringIsFinite ''abc''"
    by code_simp+
  have p: "parseInt10 (JStr ''0'') = Some 0" "parseInt10 (JStr ''-5'') = Some (- 5)"
          "parseInt10 (JStr ''abc'') = None"
    by code_simp+
  show ?thesis
    by (simp add: p f parseOptions_def noOptions_def invalidPort_def)
qed

text \<open>
  C9. A plain call \<^verbatim>\<open>Server(options)\<close>, whose \<^verbatim>\<open>this\<close> is not a Server
  instance, never returns \<^verbatim>\<open>undefined\<close> and installs nothing on its \<^verbatim>\<open>this\<close>:
  it throws what \<^verbatim>\<open>new Server(options)\<close> throws, or returns the instance that
  \<^verbatim>\<open>new Server(options)\<close> builds. That instance is fully constructed: the registry is
  well formed, the default context is what the registry holds at the key of the mount
  point, and every connector of the configuration is open.
\<close>

theorem Server_without_new:
  "(Server_new e opts = Inl err \<longrightarrow> Server e OtherObject opts = Inl err) \<and>
   (Server_new e opts = Inr s \<longrightarrow>
      Server e OtherObject opts = Inr (ReturnedObject s) \<and>
      registryOk s \<and> keysOwn s \<and>
      (\<exists>dc. defaultContext s = Some dc \<and>
         lookupContext (contextMap s)
           (contextKey (virtualHost (case opts of None \<Rightarrow> noOptions | Some given \<Rightarrow> given))
              (stringOr (mountpoint (case opts of None \<Rightarrow> noOptions | Some given \<Rightarrow> given)) ''/'')) =
         Some (getHandler dc)) \<and>
      list_all (\<lambda>c. c) (j_connectors (jetty s))) \<and>
   Server e OtherObject opts \<noteq> Inr (ReturnedUndefined s') \<and>
   (Server_body e opts = Inr s' \<longrightarrow> Server e ServerInstance opts = Inr (ReturnedUndefined s'))"
proof -
  have a: "Server e OtherObject opts =
             (case Server_new e opts of Inl err \<Rightarrow> Inl err | Inr obj \<Rightarrow> Inr (ReturnedObject obj))"
    by (subst Server.simps) simp
  have b: "Server_new e opts = Inr s \<longrightarrow> Server_body e opts = Inr s"
    by (simp add: Server_new_body)
  have c: "Server e ServerInstance opts =
             (case Server_body e opts of Inl err \<Rightarrow> Inl err | Inr s \<Rightarrow> Inr (ReturnedUndefined s))"
    by (subst Server.simps) simp
  show ?thesis
    using b Server_body_constructed [of e opts s]
    by (auto simp: a c split: sum.splits)
qed

theorem Server_without_new_witness:
  "Server_new demoEnv None = Inr demoServer \<and>
   Server demoEnv OtherObject None = Inr (ReturnedObject demoServer) \<and>
   Server demoEnv ServerInstance None = Inr (ReturnedUndefined demoServer) \<and>
   Server_new demoEnv (Some (noOptions\<lparr>jettyConfig := Some ''missing''\<rparr>)) =
     Inl (Error ''Resource \"missing\" not found'') \<and>
   Server demoEnv OtherObject (Some (noOptions\<lparr>jettyConfig := Some ''missing''\<rparr>)) =
     Inl (Error ''Resource \"missing\" not found'') \<and>
   registryOk demoServer \<and>
   defaultContext demoServer = Some (Context (Handler 0)) \<and>
   list_all (\<lambda>c. c) (j_connectors (jetty demoServer))"
proof -
  have m: "Server_new demoEnv (Some (noOptions\<lparr>jettyConfig := Some ''missing''\<rparr>)) =
             Inl (Error ''Resource \"missing\" not found'')"
    by (simp add: Server_new_body Server_body_def demoEnv_def noOptions_def stringOr_def)
  have d: "Server_body demoEnv None = Inr demoServer"
    using demoServer_constructed by (simp add: Server_new_body)
  show ?thesis
    using Server_without_new [of demoEnv None "Error ''x''" demoServer demoServer]
      Server_without_new
        [of demoEnv "Some (noOptions\<lparr>jettyConfig := Some ''missing''\<rparr>)"
            "Error ''Resource \"missing\" not found''" demoServer demoServer]
    by (simp add: demoServer_constructed m d) (simp add: demoServer_def)
qed

text \<open>
  C10. With the transport reference set, a length that parses to 0, such as the number 0,
  is replaced by \<^verbatim>\<open>bytearray.length\<close>, which is not 0 unless the array is empty; and an
  offset that does not parse to a number is replaced by 0.
\<close>

theorem sendBinary_zero_length_falls_back:
  assumes "conn sock = Some c"
  shows "parseInt10 (JNum 0) = Some 0 \<and>
         sendBinary sock bytearray offset (JNum 0) t =
           conn_sendMessage c
             (BinaryFrame bytearray (numberOr (parseInt10 offset) 0) (int (length bytearray))) t \<and>
         (parseInt10 len = Some 0 \<longrightarrow>
            sendBinary sock bytearray offset len t =
              conn_sendMessage c
                (BinaryFrame bytearray (numberOr (parseInt10 offset) 0) (int (length bytearray))) t) \<and>
         (parseInt10 offset = None \<longrightarrow>
            sendBinary sock bytearray offset len t =
              conn_sendMessage c
                (BinaryFrame bytearray 0 (numberOr (parseInt10 len) (int (length bytearray)))) t) \<and>
         (bytearray \<noteq> [] \<longrightarrow> numberOr (parseInt10 (JNum 0)) (int (length bytearray)) \<noteq> 0)"
  using assms by (simp add: sendBinary_def numberOr_def parseInt10_zero)

theorem sendBinary_zero_length_falls_back_witness:
  "conn demoSocket = Some 0 \<and>
   parseInt10 (JStr ''00'') = Some 0 \<and>
   parseInt10 (JStr ''x'') = None \<and>
   sendBinary demoSocket [7, 8, 9] (JNum 1) (JNum 0) demoTransport =
     (Inr (), [\<lparr>c_open = True, c_sent = [BinaryFrame [7, 8, 9] 1 3]\<rparr>]) \<and>
   sendBinary demoSocket [7, 8, 9] (JStr ''x'') (JStr ''00'') demoTransport =
     (Inr (), [\<lparr>c_open = True, c_sent = [BinaryFrame [7, 8, 9] 0 3]\<rparr>])"
proof -
  have p: "parseInt10 (JStr ''00'') = Some 0" "parseInt10 (JStr ''x'') = None"
          "parseInt10 (JNum 1) = Some 1"
    by code_simp+
  show ?thesis
    using sendBinary_zero_length_falls_back [OF conn_demoSocket, of "[7, 8, 9]" "JNum 1" demoTransport "JStr ''00''"]
          sendBinary_zero_length_falls_back [OF conn_demoSocket, of "[7, 8, 9]" "JStr ''x''" demoTransport "JStr ''00''"]
    by (simp add: p conn_demoSocket numberOr_def conn_sendMessage_def conn_isOpen_def demoTransport_def)
qed

end
